theory Spec2Isabelle
  imports Main "HOL-Library.Word" "HOL-Library.Sublist"
begin

section \<open>Schema observations\<close>

text \<open>
  The generator reads the schema through the interfaces of protoc-gen-star (\<open>pgs\<close>).
  The model keeps, for every schema entity, exactly the observations the source makes
  on it. \<open>pgs.ProtoType\<close> and \<open>pgs.ProtoLabel\<close> are enumerations whose zero value
  belongs to no kind; a \<open>RuleInfo\<close> that leaves one of them unset is modelled with
  \<open>None\<close>.
\<close>

datatype ProtoType =
    DoubleT | FloatT | Int64T | UInt64T | Int32T | Fixed64T | Fixed32T | BoolT
  | StringT | GroupT | MessageT | BytesT | UInt32T | EnumT | SFixed32 | SFixed64
  | SInt32 | SInt64

datatype ProtoLabel = Optional | Required | Repeated

text \<open>An entity that can be named and imported: \<open>m.ctx.Name(n)\<close>, \<open>m.ctx.ImportPath(n)\<close>.\<close>

record Entity =
  ent_Name :: string
  ent_ImportPath :: string

text \<open>\<open>pgs.FieldTypeElem\<close>: the element of a repeated or map field.\<close>

record FieldTypeElem =
  el_ProtoType :: ProtoType
  el_IsEmbed :: bool
  el_Embed :: "Entity option"

text \<open>\<open>pgs.FieldType\<close>; \<open>Embed\<close> and \<open>Element\<close> may return nil.\<close>

record FieldType =
  typ_ProtoType :: ProtoType
  typ_ProtoLabel :: ProtoLabel
  typ_IsMap :: bool
  typ_IsRepeated :: bool
  typ_IsEmbed :: bool
  typ_Embed :: "Entity option"
  typ_Element :: "FieldTypeElem option"

text \<open>\<open>pgs.OneOf\<close>; a proto3 \<open>optional\<close> field lives in a synthetic oneof.\<close>

datatype OneOf = OneOf (IsSynthetic: bool)

section \<open>Redaction annotations\<close>

text \<open>
  The Go structs generated for the annotation messages: \<open>MessageRules\<close> and
  \<open>ElementRules\<close> have plain boolean fields, \<open>FieldRules.Values\<close> is a oneof
  interface that may be nil, and the payloads of the message and element variants are
  pointers that may be nil. Integer payloads are the machine integers of the Go fields.
  The payloads of the float and double variants are kept in their \<open>%v\<close> rendering,
  the only way the generator uses them.
\<close>

record MessageRules =
  mNil :: bool
  mEmpty :: bool
  mSkip :: bool

datatype FieldRules = FieldRules (Values: "FieldRules_Values option")
and FieldRules_Values =
    FieldRules_Float string
  | FieldRules_Double string
  | FieldRules_Int32 "32 word"
  | FieldRules_Int64 "64 word"
  | FieldRules_Uint32 "32 word"
  | FieldRules_Uint64 "64 word"
  | FieldRules_Sint32 "32 word"
  | FieldRules_Sint64 "64 word"
  | FieldRules_Fixed32 "32 word"
  | FieldRules_Fixed64 "64 word"
  | FieldRules_Sfixed32 "32 word"
  | FieldRules_Sfixed64 "64 word"
  | FieldRules_Bool bool
  | FieldRules_String string
  | FieldRules_Bytes string
  | FieldRules_Enum "32 word"
  | FieldRules_Message "MessageRules option"
  | FieldRules_Element "ElementRules option"
and ElementRules = ElementRules (eEmpty: bool) (eNested: bool) (eItem: "FieldRules option")

text \<open>\<open>(*FieldRules).GetElement\<close>: the element payload when that variant is set.\<close>

fun GetElement :: "FieldRules \<Rightarrow> ElementRules option" where
  "GetElement (FieldRules (Some (FieldRules_Element x))) = x"
| "GetElement r = None"

text \<open>
  \<open>pgs.Field\<close> with the observations the generator makes: the names, the type, the
  oneof membership, what the Go context prints for the field's type and map key, and
  the two field extensions \<open>(redact.redact)\<close> and the structured rule. An extension
  that is not set is \<open>None\<close>; decoding an extension is assumed not to fail.
\<close>

record Field =
  field_Name :: string
  field_FullyQualifiedName :: string
  field_Message_FullyQualifiedName :: string
  field_Type :: "FieldType option"
  field_OneOf :: "OneOf option"
  field_ctx_Name :: string
  field_ctx_Type :: string
  field_ctx_Type_Key :: string
  field_ext_Redact :: "bool option"
  field_ext_Value :: "FieldRules option"

definition InOneOf :: "Field \<Rightarrow> bool" where
  "InOneOf field = (field_OneOf field \<noteq> None)"

record Message =
  msg_FullyQualifiedName :: string
  msg_Entity :: Entity
  msg_ext_Ignored :: "bool option"
  msg_ext_Nil :: "bool option"
  msg_ext_Empty :: "bool option"
  msg_Fields :: "Field list"

record Method =
  meth_Name :: string
  meth_FullyQualifiedName :: string
  meth_ctx_Name :: string
  meth_Input :: "Message option"
  meth_Output :: "Message option"
  meth_ClientStreaming :: bool
  meth_ServerStreaming :: bool
  meth_ext_MethodSkip :: "bool option"
  meth_ext_InternalMethod :: "bool option"
  meth_ext_InternalMethodCode :: "32 word option"
  meth_ext_InternalMethodErrMessage :: "string option"

record Service =
  srv_FullyQualifiedName :: string
  srv_ctx_Name :: string
  srv_Methods :: "Method list"
  srv_ext_ServiceSkip :: "bool option"
  srv_ext_InternalService :: "bool option"
  srv_ext_InternalServiceCode :: "32 word option"
  srv_ext_InternalServiceErrMessage :: "string option"

text \<open>
  Reading a boolean extension into a variable initialised with \<open>false\<close>:
  \<open>x := false; m.must(e.Extension(ext, &x))\<close>.
\<close>

definition ext_bool :: "bool option \<Rightarrow> bool" where
  "ext_bool e = (case e of Some b \<Rightarrow> b | None \<Rightarrow> False)"

section \<open>Decision records\<close>

record FieldData =
  fd_Name :: string
  Redact :: bool
  RedactionValue :: string
  FieldGoType :: string
  IsMap :: bool
  IsRepeated :: bool
  IsMessage :: bool
  IsOptional :: bool
  Iterate :: bool
  NestedEmbedCall :: bool
  EmbedSkip :: bool
  EmbedMessageName :: string
  EmbedMessageNameWithAlias :: string

record MessageData =
  md_Name :: string
  WithAlias :: string
  Fields :: "FieldData list"
  Ignore :: bool
  ToNil :: bool
  ToEmpty :: bool

record MethodData =
  meth_data_Name :: string
  meth_data_Skip :: bool
  Input :: string
  Output :: MessageData
  Internal :: bool
  StatusCode :: string
  ErrMessage :: string
  ClientStreaming :: bool
  ServerStreaming :: bool

record ServiceData =
  srv_data_Name :: string
  srv_data_Skip :: bool
  Methods :: "MethodData list"

section \<open>Formatting\<close>

text \<open>Decimal printing, as \<open>%d\<close> and \<open>%v\<close> print Go integers; \<open>%v\<close> on a bool.\<close>

function fmt_nat :: "nat \<Rightarrow> string" where
  "fmt_nat n = (if n < 10 then [char_of (48 + n)]
                else fmt_nat (n div 10) @ [char_of (48 + n mod 10)])"
  by pat_completeness auto
termination
  by (relation "measure id") auto

declare fmt_nat.simps [simp del]

definition fmt_int :: "int \<Rightarrow> string" where
  "fmt_int i = (if i < 0 then ''-'' @ fmt_nat (nat (- i)) else fmt_nat (nat i))"

definition fmt_bool :: "bool \<Rightarrow> string" where
  "fmt_bool b = (if b then ''true'' else ''false'')"

text \<open>
  \<open>pgs.ProtoType.String\<close> prints the name of the descriptor enum value. It belongs to
  protoc-gen-star and only feeds diagnostic texts.
\<close>

fun ProtoType_String :: "ProtoType \<Rightarrow> string" where
  "ProtoType_String DoubleT = ''TYPE_DOUBLE''"
| "ProtoType_String FloatT = ''TYPE_FLOAT''"
| "ProtoType_String Int64T = ''TYPE_INT64''"
| "ProtoType_String UInt64T = ''TYPE_UINT64''"
| "ProtoType_String Int32T = ''TYPE_INT32''"
| "ProtoType_String Fixed64T = ''TYPE_FIXED64''"
| "ProtoType_String Fixed32T = ''TYPE_FIXED32''"
| "ProtoType_String BoolT = ''TYPE_BOOL''"
| "ProtoType_String StringT = ''TYPE_STRING''"
| "ProtoType_String GroupT = ''TYPE_GROUP''"
| "ProtoType_String MessageT = ''TYPE_MESSAGE''"
| "ProtoType_String BytesT = ''TYPE_BYTES''"
| "ProtoType_String UInt32T = ''TYPE_UINT32''"
| "ProtoType_String EnumT = ''TYPE_ENUM''"
| "ProtoType_String SFixed32 = ''TYPE_SFIXED32''"
| "ProtoType_String SFixed64 = ''TYPE_SFIXED64''"
| "ProtoType_String SInt32 = ''TYPE_SINT32''"
| "ProtoType_String SInt64 = ''TYPE_SINT64''"

text \<open>
  \<open>codes.Code.String\<close> of gRPC: the names of the seventeen canonical status codes,
  \<open>Code(n)\<close> for any other number.
\<close>

definition Code_String :: "32 word \<Rightarrow> string" where
  "Code_String c =
     (if c = 0 then ''OK'' else if c = 1 then ''Canceled'' else if c = 2 then ''Unknown''
      else if c = 3 then ''InvalidArgument'' else if c = 4 then ''DeadlineExceeded''
      else if c = 5 then ''NotFound'' else if c = 6 then ''AlreadyExists''
      else if c = 7 then ''PermissionDenied'' else if c = 8 then ''ResourceExhausted''
      else if c = 9 then ''FailedPrecondition'' else if c = 10 then ''Aborted''
      else if c = 11 then ''OutOfRange'' else if c = 12 then ''Unimplemented''
      else if c = 13 then ''Internal'' else if c = 14 then ''Unavailable''
      else if c = 15 then ''DataLoss'' else if c = 16 then ''Unauthenticated''
      else ''Code('' @ fmt_nat (unat c) @ '')'')"

text \<open>
  \<open>strings.ReplaceAll\<close>: the non-overlapping instances of \<open>old\<close> are replaced from
  left to right; an empty \<open>old\<close> matches before every character and at the end
  (strings are byte sequences here, so this last case is Go's on ASCII text).
\<close>

function ReplaceAll :: "string \<Rightarrow> string \<Rightarrow> string \<Rightarrow> string" where
  "ReplaceAll [] old new = (if old = [] then new else [])"
| "ReplaceAll (c # cs) old new =
     (if old = [] then new @ c # ReplaceAll cs old new
      else if prefix old (c # cs) then new @ ReplaceAll (drop (length old) (c # cs)) old new
      else c # ReplaceAll cs old new)"
  by pat_completeness auto
termination
  by (relation "measure (\<lambda>(s, old, new). length s)") auto

section \<open>Default-value table\<close>

text \<open>
  Modelled from the spec: \<open>RedactionDefaults\<close> is called by \<open>processFields\<close> and
  exercised by \<open>TestRedactionDefaults\<close>, but its defining file is not part of the
  sources at hand. The table follows section 4.1 of the specification; the row for the
  group kind, on which the specification is silent, follows the test table.
\<close>

fun RedactionDefaults :: "ProtoType \<Rightarrow> bool \<Rightarrow> string" where
  "RedactionDefaults typ True = ''nil''"
| "RedactionDefaults BoolT False = ''false''"
| "RedactionDefaults StringT False = ''\"REDACTED\"''"
| "RedactionDefaults BytesT False = ''nil''"
| "RedactionDefaults GroupT False = ''nil''"
| "RedactionDefaults MessageT False = ''-''"
| "RedactionDefaults typ False = ''0''"

text \<open>
  Modelled from the spec: \<open>ToCustomRule\<close>, the suggested rule spelling used in the
  hints of type errors, is defined in the same absent file. Section 4.3 (a) of the
  specification gives the pattern; \<open>TestToCustomRule\<close> gives the spelling for a kind
  that has no rule of its own.
\<close>

fun ToCustomRule :: "ProtoType \<Rightarrow> ProtoLabel \<Rightarrow> string" where
  "ToCustomRule typ Repeated = ''(redact.custom).element.*''"
| "ToCustomRule FloatT lab = ''(redact.custom).float''"
| "ToCustomRule DoubleT lab = ''(redact.custom).double''"
| "ToCustomRule Int32T lab = ''(redact.custom).int32''"
| "ToCustomRule Int64T lab = ''(redact.custom).int64''"
| "ToCustomRule UInt32T lab = ''(redact.custom).uint32''"
| "ToCustomRule UInt64T lab = ''(redact.custom).uint64''"
| "ToCustomRule SInt32 lab = ''(redact.custom).sint32''"
| "ToCustomRule SInt64 lab = ''(redact.custom).sint64''"
| "ToCustomRule Fixed32T lab = ''(redact.custom).fixed32''"
| "ToCustomRule Fixed64T lab = ''(redact.custom).fixed64''"
| "ToCustomRule SFixed32 lab = ''(redact.custom).sfixed32''"
| "ToCustomRule SFixed64 lab = ''(redact.custom).sfixed64''"
| "ToCustomRule BoolT lab = ''(redact.custom).bool''"
| "ToCustomRule StringT lab = ''(redact.custom).string''"
| "ToCustomRule BytesT lab = ''(redact.custom).bytes''"
| "ToCustomRule EnumT lab = ''(redact.custom).enum''"
| "ToCustomRule MessageT lab = ''(redact.custom).message.*''"
| "ToCustomRule GroupT lab = ''(redact.redact)''"

section \<open>Errors and failures\<close>

record ErrorContext =
  Location :: string
  Field :: string
  Type :: string
  Rule :: string
  Reason :: string

definition ErrorContext_Error :: "ErrorContext \<Rightarrow> string" where
  "ErrorContext_Error e =
     (if Location e \<noteq> [] \<and> Field e \<noteq> [] then
        ''['' @ Location e @ ''.'' @ Field e @ ''] '' @ Reason e
      else if Location e \<noteq> [] then ''['' @ Location e @ ''] '' @ Reason e
      else Reason e)"

record ValidationError =
  Entity :: string
  Expected :: string
  Got :: string
  Hint :: string

definition ValidationError_Error :: "ValidationError \<Rightarrow> string" where
  "ValidationError_Error v =
     (let msg = ''Validation failed for '' @ Entity v;
          msg = (if Expected v \<noteq> [] then msg @ '': expected '' @ Expected v else msg);
          msg = (if Got v \<noteq> [] then msg @ '', got '' @ Got v else msg);
          msg = (if Hint v \<noteq> [] then msg @ '' (hint: '' @ Hint v @ '')'' else msg)
      in msg)"

text \<open>A Go \<open>error\<close> value of this program, and the text its \<open>Error\<close> method prints.\<close>

datatype error = Errorf string | ValidationErr ValidationError | ContextErr ErrorContext

fun error_Error :: "error \<Rightarrow> string" where
  "error_Error (Errorf s) = s"
| "error_Error (ValidationErr v) = ValidationError_Error v"
| "error_Error (ContextErr e) = ErrorContext_Error e"

text \<open>
  \<open>m.Fail\<close> and \<open>m.Failf\<close> log their message and end the run; the source marks the
  statements after them unreachable. \<open>Failed\<close> carries the logged message. A runtime
  panic (a method called on a nil interface) unwinds to the nearest deferred
  \<open>recoverFromPanic\<close>, which fails with the panic's text.
\<close>

datatype failure = Failed string | Panicked string

definition nil_dereference :: string where
  "nil_dereference = ''runtime error: invalid memory address or nil pointer dereference''"

definition recoverFromPanic :: "string \<Rightarrow> failure + 'a \<Rightarrow> failure + 'a" where
  "recoverFromPanic context r =
     (case r of
        Inl (Panicked p) \<Rightarrow> Inl (Failed (''Panic in '' @ context @ '': '' @ p))
      | _ \<Rightarrow> r)"

section \<open>Validation layer\<close>

definition validateField :: "Field \<Rightarrow> error option" where
  "validateField field =
     (case field_Type field of
        None \<Rightarrow> Some (Errorf (''field '' @ field_Name field @ '' has nil type''))
      | Some typ \<Rightarrow> None)"

definition validateMessage :: "Message \<Rightarrow> error option" where
  "validateMessage msg =
     (let ignore = ext_bool (msg_ext_Ignored msg);
          toNil = ext_bool (msg_ext_Nil msg);
          toEmpty = ext_bool (msg_ext_Empty msg);
          conflictCount = (0::nat);
          conflictCount = (if ignore then conflictCount + 1 else conflictCount);
          conflictCount = (if toNil then conflictCount + 1 else conflictCount);
          conflictCount = (if toEmpty then conflictCount + 1 else conflictCount)
      in if conflictCount > 1 then
           Some (ValidationErr \<lparr>
             Entity = ''message '' @ msg_FullyQualifiedName msg,
             Expected = ''at most one of (redact.ignored), (redact.nil), or (redact.empty)'',
             Got = ''multiple options set (ignored='' @ fmt_bool ignore @ '', nil=''
                   @ fmt_bool toNil @ '', empty='' @ fmt_bool toEmpty @ '')'',
             Hint = ''these options are mutually exclusive''\<rparr>)
         else None)"

definition validateStatusCode :: "32 word \<Rightarrow> string \<Rightarrow> error option" where
  "validateStatusCode code location =
     (if code > 16 then
        Some (ValidationErr \<lparr>
          Entity = ''status code in '' @ location,
          Expected = ''valid gRPC status code (0-16)'',
          Got = fmt_nat (unat code),
          Hint = ''see https://grpc.io/docs/guides/status-codes/ for valid codes''\<rparr>)
      else None)"

definition validateService :: "Service \<Rightarrow> error option" where
  "validateService srv =
     (case srv_ext_InternalServiceCode srv of
        Some srvCode \<Rightarrow> validateStatusCode srvCode (srv_FullyQualifiedName srv)
      | None \<Rightarrow> None)"

definition validateMethod :: "Method \<Rightarrow> error option" where
  "validateMethod meth =
     (if meth_Input meth = None then
        Some (Errorf (''method '' @ meth_Name meth @ '' has nil input''))
      else if meth_Output meth = None then
        Some (Errorf (''method '' @ meth_Name meth @ '' has nil output''))
      else (case meth_ext_InternalMethodCode meth of
              Some methCode \<Rightarrow> validateStatusCode methCode (meth_FullyQualifiedName meth)
            | None \<Rightarrow> None))"

definition validateTypeMatch ::
  "Field \<Rightarrow> FieldType \<Rightarrow> ProtoType option \<Rightarrow> ProtoLabel option \<Rightarrow> error option" where
  "validateTypeMatch field fieldType ruleType ruleLabel =
     (if ruleType \<noteq> None \<and> ruleType \<noteq> Some (typ_ProtoType fieldType) then
        Some (ValidationErr \<lparr>
          Entity = ''field '' @ field_FullyQualifiedName field,
          Expected = ''rule for type '' @ ProtoType_String (typ_ProtoType fieldType),
          Got = ''rule for type ''
                @ (case ruleType of Some rt \<Rightarrow> ProtoType_String rt | None \<Rightarrow> []),
          Hint = ''use '' @ ToCustomRule (typ_ProtoType fieldType) (typ_ProtoLabel fieldType)
                 @ '' instead''\<rparr>)
      else if typ_ProtoLabel fieldType = Repeated \<and> ruleLabel \<noteq> Some Repeated then
        Some (ValidationErr \<lparr>
          Entity = ''repeated field '' @ field_FullyQualifiedName field,
          Expected = ''(redact.custom).element.*'',
          Got = ''non-repeated rule'',
          Hint = ''repeated fields require element rules''\<rparr>)
      else None)"

definition failWithInvalidType :: "Field \<Rightarrow> FieldType \<Rightarrow> failure" where
  "failWithInvalidType field typ =
     (let want = ToCustomRule (typ_ProtoType typ) (typ_ProtoLabel typ)
      in Failed (ValidationError_Error \<lparr>
           Entity = field_FullyQualifiedName field,
           Expected = want,
           Got = ''incompatible redaction rule type'',
           Hint = ''ensure the rule type matches the field type (''
                  @ ProtoType_String (typ_ProtoType typ) @ '')''\<rparr>))"

definition failWithContext :: "Field \<Rightarrow> string \<Rightarrow> failure" where
  "failWithContext field reason =
     (case field_Type field of
        None \<Rightarrow> Panicked nil_dereference
      | Some typ \<Rightarrow>
          Failed (ErrorContext_Error \<lparr>
            Location = field_Message_FullyQualifiedName field,
            Field = field_Name field,
            Type = ProtoType_String (typ_ProtoType typ),
            Rule = [],
            Reason = reason\<rparr>))"

definition nested_hint :: string where
  "nested_hint = [CHR 0x0A, CHR 0x0A] @ ''Hint: Use either:'' @ [CHR 0x0A]
     @ ''  - (redact.custom).element.nested for iteration'' @ [CHR 0x0A]
     @ ''  - (redact.custom).element.item.* for custom item values'' @ [CHR 0x0A]
     @ ''  - (redact.custom).element.empty for empty list''"

definition failWithNestedError :: "Field \<Rightarrow> failure" where
  "failWithNestedError field =
     (case field_Type field of
        None \<Rightarrow> Panicked nil_dereference
      | Some typ \<Rightarrow>
          Failed (ErrorContext_Error \<lparr>
            Location = field_Message_FullyQualifiedName field,
            Field = field_Name field,
            Type = ProtoType_String (typ_ProtoType typ),
            Rule = [],
            Reason = ''nested element.item.element... is not supported - maximum nesting depth is 1''\<rparr>
          @ nested_hint))"

definition validateRules :: "FieldRules option \<Rightarrow> Field \<Rightarrow> error option" where
  "validateRules rules field =
     (case rules of
        None \<Rightarrow> None
      | Some r \<Rightarrow>
         (case Values r of
            None \<Rightarrow>
              Some (ValidationErr \<lparr>
                Entity = field_FullyQualifiedName field,
                Expected = ''redaction rule with values'',
                Got = ''empty rule'',
                Hint = ''define a value for the custom redaction rule''\<rparr>)
          | Some (FieldRules_Message None) \<Rightarrow>
              Some (ValidationErr \<lparr>
                Entity = field_FullyQualifiedName field,
                Expected = ''message rule definition'',
                Got = ''nil message rule'',
                Hint = ''use (redact.custom).message.nil, .empty, or .skip''\<rparr>)
          | Some (FieldRules_Element None) \<Rightarrow>
              Some (ValidationErr \<lparr>
                Entity = field_FullyQualifiedName field,
                Expected = ''element rule definition'',
                Got = ''nil element rule'',
                Hint = ''use (redact.custom).element.nested, .empty, or .item.*''\<rparr>)
          | Some (FieldRules_Element (Some elem)) \<Rightarrow>
              (case eItem elem of
                 Some (FieldRules (Some (FieldRules_Element inner))) \<Rightarrow>
                   Some (ValidationErr \<lparr>
                     Entity = field_FullyQualifiedName field,
                     Expected = ''single-level element nesting'',
                     Got = ''element.item.element'',
                     Hint = ''nested element rules are not supported''\<rparr>)
               | _ \<Rightarrow> None)
          | _ \<Rightarrow> None))"

section \<open>Rule-shape classifier\<close>

text \<open>
  \<open>RuleInfo\<close>: the redaction value is an \<open>interface{}\<close> that the resolver prints with
  \<open>%v\<close>; the model stores that rendering (\<open><nil>\<close> when the value is left unset).
\<close>

record RuleInfo =
  ri_RedactionValue :: string
  ri_ProtoType :: "ProtoType option"
  ri_ProtoLabel :: "ProtoLabel option"

definition RuleInfo_zero :: RuleInfo where
  "RuleInfo_zero = \<lparr>ri_RedactionValue = ''<nil>'', ri_ProtoType = None, ri_ProtoLabel = None\<rparr>"

definition scalar_rule :: "ProtoType \<Rightarrow> string \<Rightarrow> failure + RuleInfo" where
  "scalar_rule t v = Inr (RuleInfo_zero\<lparr>ri_ProtoType := Some t, ri_RedactionValue := v\<rparr>)"

fun RuleInformation :: "FieldRules \<Rightarrow> failure + RuleInfo" where
  "RuleInformation (FieldRules (Some (FieldRules_Float x))) = scalar_rule FloatT x"
| "RuleInformation (FieldRules (Some (FieldRules_Double x))) = scalar_rule DoubleT x"
| "RuleInformation (FieldRules (Some (FieldRules_Int32 x))) = scalar_rule Int32T (fmt_int (sint x))"
| "RuleInformation (FieldRules (Some (FieldRules_Int64 x))) = scalar_rule Int64T (fmt_int (sint x))"
| "RuleInformation (FieldRules (Some (FieldRules_Uint32 x))) = scalar_rule UInt32T (fmt_nat (unat x))"
| "RuleInformation (FieldRules (Some (FieldRules_Uint64 x))) = scalar_rule UInt64T (fmt_nat (unat x))"
| "RuleInformation (FieldRules (Some (FieldRules_Sint32 x))) = scalar_rule SInt32 (fmt_int (sint x))"
| "RuleInformation (FieldRules (Some (FieldRules_Sint64 x))) = scalar_rule SInt64 (fmt_int (sint x))"
| "RuleInformation (FieldRules (Some (FieldRules_Fixed32 x))) = scalar_rule Fixed32T (fmt_nat (unat x))"
| "RuleInformation (FieldRules (Some (FieldRules_Fixed64 x))) = scalar_rule Fixed64T (fmt_nat (unat x))"
| "RuleInformation (FieldRules (Some (FieldRules_Sfixed32 x))) = scalar_rule SFixed32 (fmt_int (sint x))"
| "RuleInformation (FieldRules (Some (FieldRules_Sfixed64 x))) = scalar_rule SFixed64 (fmt_int (sint x))"
| "RuleInformation (FieldRules (Some (FieldRules_Bool x))) = scalar_rule BoolT (fmt_bool x)"
| "RuleInformation (FieldRules (Some (FieldRules_String x))) = scalar_rule StringT (''`'' @ x @ ''`'')"
| "RuleInformation (FieldRules (Some (FieldRules_Bytes x))) =
     scalar_rule BytesT (''[]byte(`'' @ x @ ''`)'')"
| "RuleInformation (FieldRules (Some (FieldRules_Enum x))) = scalar_rule EnumT (fmt_int (sint x))"
| "RuleInformation (FieldRules (Some (FieldRules_Message x))) =
     (if x = None then Inl (Failed ''(redact.custom).message is nil, no option defined'')
      else Inr (RuleInfo_zero\<lparr>ri_ProtoType := Some MessageT\<rparr>))"
| "RuleInformation (FieldRules (Some (FieldRules_Element x))) =
     (if x = None then Inl (Failed ''(redact.custom).element is nil, no option defined'')
      else Inr (RuleInfo_zero\<lparr>ri_ProtoLabel := Some Repeated\<rparr>))"
| "RuleInformation (FieldRules None) = Inl (Failed ''Something went wrong'')"

fun goTypeName :: "ProtoType \<Rightarrow> string" where
  "goTypeName Int32T = ''int32''"
| "goTypeName Int64T = ''int64''"
| "goTypeName UInt32T = ''uint32''"
| "goTypeName UInt64T = ''uint64''"
| "goTypeName SInt32 = ''int32''"
| "goTypeName SInt64 = ''int64''"
| "goTypeName Fixed32T = ''uint32''"
| "goTypeName Fixed64T = ''uint64''"
| "goTypeName SFixed32 = ''int32''"
| "goTypeName SFixed64 = ''int64''"
| "goTypeName FloatT = ''float32''"
| "goTypeName DoubleT = ''float64''"
| "goTypeName BoolT = ''bool''"
| "goTypeName StringT = ''string''"
| "goTypeName BytesT = ''[]byte''"
| "goTypeName pt = []"

section \<open>Field resolver\<close>

text \<open>
  The sub-decision of a message rule, written twice in the source: for the field itself
  and for the item rule of a container. The value has been preset to \<open>nil\<close>.
\<close>

definition messageRuleDecision :: "FieldData \<Rightarrow> MessageRules \<Rightarrow> FieldData" where
  "messageRuleDecision flData rule =
     (let flData = flData\<lparr>RedactionValue := ''nil''\<rparr>
      in if mEmpty rule then
           flData\<lparr>RedactionValue := ''&'' @ EmbedMessageNameWithAlias flData @ ''{}''\<rparr>
         else if mNil rule then flData\<lparr>RedactionValue := ''nil''\<rparr>
         else if mSkip rule then flData\<lparr>EmbedSkip := True\<rparr>
         else flData\<lparr>NestedEmbedCall := True\<rparr>)"

definition typeMismatch ::
  "Field \<Rightarrow> FieldType \<Rightarrow> RuleInfo \<Rightarrow> failure" where
  "typeMismatch field typ info =
     (case validateTypeMatch field typ (ri_ProtoType info) (ri_ProtoLabel info) of
        Some err \<Rightarrow> Failed (error_Error err)
      | None \<Rightarrow> failWithInvalidType field typ)"

definition elementRuleDecision ::
  "FieldData \<Rightarrow> Field \<Rightarrow> FieldType \<Rightarrow> ElementRules \<Rightarrow> failure + FieldData" where
  "elementRuleDecision flData field typ rule =
     (if eEmpty rule then
        (if EmbedMessageNameWithAlias flData = [] then
           Inr (flData\<lparr>RedactionValue := field_ctx_Type field @ ''{}''\<rparr>)
         else if IsRepeated flData then
           Inr (flData\<lparr>RedactionValue := ''[]*'' @ EmbedMessageNameWithAlias flData @ ''{}''\<rparr>)
         else
           Inr (flData\<lparr>RedactionValue := ''map['' @ field_ctx_Type_Key field @ '']*''
                  @ EmbedMessageNameWithAlias flData @ ''{}''\<rparr>))
      else if eNested rule then
        (case typ_Element typ of
           None \<Rightarrow> Inl (Panicked nil_dereference)
         | Some ele \<Rightarrow>
            (let flData = flData\<lparr>Iterate := True,
                            RedactionValue := RedactionDefaults (el_ProtoType ele) False\<rparr>
             in if el_IsEmbed ele then Inr (flData\<lparr>NestedEmbedCall := True\<rparr>)
                else Inr flData))
      else
        (case eItem rule of
           None \<Rightarrow> Inr flData
         | Some rules \<Rightarrow>
            (case Values rules of
               None \<Rightarrow> Inr flData
             | Some v \<Rightarrow>
                if GetElement rules \<noteq> None then Inl (failWithNestedError field)
                else
                  (case RuleInformation rules of
                     Inl f \<Rightarrow> Inl f
                   | Inr info \<Rightarrow>
                      (case typ_Element typ of
                         None \<Rightarrow> Inl (Panicked nil_dereference)
                       | Some ele \<Rightarrow>
                          if ri_ProtoType info \<noteq> Some (el_ProtoType ele) then
                            Inl (failWithInvalidType field typ)
                          else
                            (let flData = flData\<lparr>Iterate := True, RedactionValue := ''nil''\<rparr>
                             in if ri_ProtoType info \<noteq> Some MessageT then
                                  Inr (flData\<lparr>RedactionValue := ri_RedactionValue info\<rparr>)
                                else
                                  (case v of
                                     FieldRules_Message (Some rule) \<Rightarrow>
                                       Inr (messageRuleDecision flData rule)
                                   | _ \<Rightarrow>
                                       Inl (Failed (''Invalid message rule type for field ''
                                                    @ field_Name field)))))))))"

definition redactedCustomValue ::
  "FieldData \<Rightarrow> Field \<Rightarrow> FieldRules \<Rightarrow> failure + FieldData" where
  "redactedCustomValue flData field fieldRules =
     (case field_Type field of
        None \<Rightarrow> Inl (failWithContext field ''field type is nil'')
      | Some typ \<Rightarrow>
         (case RuleInformation fieldRules of
            Inl f \<Rightarrow> Inl f
          | Inr info \<Rightarrow>
             if ri_ProtoType info \<noteq> None \<and> ri_ProtoType info \<noteq> Some (typ_ProtoType typ) then
               Inl (typeMismatch field typ info)
             else if typ_ProtoLabel typ = Repeated \<and> ri_ProtoLabel info \<noteq> Some Repeated then
               Inl (typeMismatch field typ info)
             else if ri_ProtoType info \<noteq> Some MessageT \<and> ri_ProtoLabel info \<noteq> Some Repeated then
               Inr (flData\<lparr>RedactionValue := ri_RedactionValue info\<rparr>)
             else if ri_ProtoType info = Some MessageT then
               (case Values fieldRules of
                  Some (FieldRules_Message (Some rule)) \<Rightarrow> Inr (messageRuleDecision flData rule)
                | _ \<Rightarrow> Inl (Failed (''Invalid message rule type for field '' @ field_Name field)))
             else
               (case Values fieldRules of
                  Some (FieldRules_Element (Some rule)) \<Rightarrow>
                    elementRuleDecision flData field typ rule
                | _ \<Rightarrow> Inl (Failed (''Invalid element rule type for field '' @ field_Name field)))))"

text \<open>
  The first part of \<open>processFields\<close>: the representation facts of the field and the
  embedded message, taken from the field's own type or, failing that, from its element.
  A field is optional when it sits in a synthetic oneof and is not of the bytes kind.
\<close>

definition newFieldData :: "(Entity \<Rightarrow> string) \<Rightarrow> Field \<Rightarrow> FieldType \<Rightarrow> FieldData" where
  "newFieldData nameWithAlias field typ =
     (let hasExplicitOptional =
            (case field_OneOf field of Some oneof \<Rightarrow> IsSynthetic oneof | None \<Rightarrow> False);
          isOptional = (hasExplicitOptional \<and> typ_ProtoType typ \<noteq> BytesT);
          flData = \<lparr>fd_Name = field_ctx_Name field, Redact = False, RedactionValue = [],
                    FieldGoType = goTypeName (typ_ProtoType typ),
                    IsMap = typ_IsMap typ, IsRepeated = typ_IsRepeated typ,
                    IsMessage = typ_IsEmbed typ, IsOptional = isOptional,
                    Iterate = False, NestedEmbedCall = False, EmbedSkip = False,
                    EmbedMessageName = [], EmbedMessageNameWithAlias = []\<rparr>;
          em = (case typ_Embed typ of
                  Some e \<Rightarrow> Some e
                | None \<Rightarrow> (case typ_Element typ of
                             Some ele \<Rightarrow> el_Embed ele
                           | None \<Rightarrow> None))
      in case em of
           Some e \<Rightarrow> flData\<lparr>EmbedMessageName := ent_Name e,
                             EmbedMessageNameWithAlias := nameWithAlias e\<rparr>
         | None \<Rightarrow> flData)"

text \<open>
  \<open>processFields\<close>. The local \<open>_redact\<close> is initialised with \<open>false\<close> and never
  assigned: the statement that read \<open>(redact.redact)\<close> into it is commented out in the
  source, so only the structured rule extension is consulted.
\<close>

definition processFields :: "(Entity \<Rightarrow> string) \<Rightarrow> Field \<Rightarrow> failure + FieldData" where
  "processFields nameWithAlias field =
     (case validateField field of
        Some err \<Rightarrow> Inl (Failed (''Invalid field: '' @ error_Error err))
      | None \<Rightarrow>
        (case field_Type field of
           None \<Rightarrow> Inl (failWithContext field ''field has nil type'')
         | Some typ \<Rightarrow>
            (let flData = newFieldData nameWithAlias field typ;
                 redact = False
             in case field_ext_Value field of
                  None \<Rightarrow> Inr flData
                | Some fieldRules \<Rightarrow>
                   (case validateRules (Some fieldRules) field of
                      Some err \<Rightarrow> Inl (Failed (error_Error err))
                    | None \<Rightarrow>
                       if Values fieldRules = None then
                         (if \<not> redact then Inr flData
                          else
                            (let flData = flData\<lparr>Redact := True,
                                   RedactionValue := RedactionDefaults (typ_ProtoType typ)
                                                       (typ_IsRepeated typ \<or> typ_IsMap typ)\<rparr>
                             in if typ_IsEmbed typ then Inr (flData\<lparr>NestedEmbedCall := True\<rparr>)
                                else Inr flData))
                       else
                         (let flData = flData\<lparr>Redact := True,
                                RedactionValue := RedactionDefaults (typ_ProtoType typ)
                                                    (typ_IsRepeated typ \<or> typ_IsMap typ)\<rparr>
                          in redactedCustomValue flData field fieldRules)))))"

section \<open>Message resolver\<close>

text \<open>
  \<open>nameWithAlias\<close>, the closure that \<open>Process\<close> builds over the import aliases of the
  file; a path without an entry reads as the empty alias.
\<close>

definition nameWithAlias :: "(string \<rightharpoonup> string) \<Rightarrow> Entity \<Rightarrow> string" where
  "nameWithAlias path2Alias n =
     (let imp = ent_ImportPath n;
          name = ent_Name n;
          alias = (case path2Alias imp of Some a \<Rightarrow> a | None \<Rightarrow> [])
      in if alias \<noteq> [] then alias @ ''.'' @ name else name)"

text \<open>The loop over the fields of a message; the first failure ends the run.\<close>

fun processMessage_fields ::
  "(Entity \<Rightarrow> string) \<Rightarrow> Field list \<Rightarrow> FieldData list \<Rightarrow> failure + FieldData list" where
  "processMessage_fields nwa [] acc = Inr acc"
| "processMessage_fields nwa (field # rest) acc =
     (case processFields nwa field of
        Inl f \<Rightarrow> Inl f
      | Inr flData \<Rightarrow> processMessage_fields nwa rest (acc @ [flData]))"

definition processMessage ::
  "(Entity \<Rightarrow> string) \<Rightarrow> Message \<Rightarrow> bool list \<Rightarrow> failure + MessageData" where
  "processMessage nwa msg wantFields =
     (case validateMessage msg of
        Some err \<Rightarrow> Inl (Failed (''Cannot process message: '' @ error_Error err))
      | None \<Rightarrow>
         recoverFromPanic (''processing message '' @ msg_FullyQualifiedName msg)
          (let msgData = \<lparr>md_Name = ent_Name (msg_Entity msg),
                           WithAlias = nwa (msg_Entity msg),
                           Fields = [], Ignore = False, ToNil = False, ToEmpty = False\<rparr>;
               msgData = msgData\<lparr>Ignore := ext_bool (msg_ext_Ignored msg)\<rparr>
           in if Ignore msgData then Inr msgData
              else
                (let msgData = msgData\<lparr>ToNil := ext_bool (msg_ext_Nil msg)\<rparr>;
                     msgData = msgData\<lparr>ToEmpty := ext_bool (msg_ext_Empty msg)\<rparr>
                 in if length wantFields > 0 then
                      (case processMessage_fields nwa (msg_Fields msg) (Fields msgData) of
                         Inl f \<Rightarrow> Inl f
                       | Inr fds \<Rightarrow> Inr (msgData\<lparr>Fields := fds\<rparr>))
                    else Inr msgData)))"

section \<open>Service and method resolver\<close>

definition defaultErrMsg :: string where
  "defaultErrMsg = ''Permission Denied. Method: \"%service%.%method%\" has been redacted''"

definition specifierMethod :: string where
  "specifierMethod = ''%method%''"

definition specifierService :: string where
  "specifierService = ''%service%''"

definition PermissionDenied :: "32 word" where
  "PermissionDenied = 7"

text \<open>The two statements under \<open>apply format specifiers\<close>: the method name first.\<close>

definition applySpecifiers :: "string \<Rightarrow> string \<Rightarrow> string \<Rightarrow> string" where
  "applySpecifiers methErrMsg methName srvName =
     (let methErrMsg = ReplaceAll methErrMsg specifierMethod methName;
          methErrMsg = ReplaceAll methErrMsg specifierService srvName
      in methErrMsg)"

text \<open>
  The body of the loop over the methods of a service. The method decision is appended
  to the service decision before the skip and internal options are read; a failure
  after that point ends the run, so the model returns the finished decision.
\<close>

definition processService_method ::
  "(Entity \<Rightarrow> string) \<Rightarrow> string \<Rightarrow> bool \<Rightarrow> bool \<Rightarrow> 32 word \<Rightarrow> string \<Rightarrow> Method
     \<Rightarrow> failure + MethodData" where
  "processService_method nwa srvName srvSkip srvInternal srvCode srvErrMsg meth =
     (case validateMethod meth of
        Some err \<Rightarrow>
          Inl (Failed (''Cannot process method '' @ meth_FullyQualifiedName meth @ '': ''
                       @ error_Error err))
      | None \<Rightarrow>
         (case meth_Input meth of
            None \<Rightarrow>
              Inl (Failed (''Method '' @ meth_FullyQualifiedName meth
                           @ '' has nil input message''))
          | Some inp \<Rightarrow>
             (case meth_Output meth of
                None \<Rightarrow>
                  Inl (Failed (''Method '' @ meth_FullyQualifiedName meth
                               @ '' has nil output message''))
              | Some out \<Rightarrow>
                 (case processMessage nwa out [] of
                    Inl f \<Rightarrow> Inl f
                  | Inr output \<Rightarrow>
                     (let methData = \<lparr>meth_data_Name = meth_ctx_Name meth,
                                       meth_data_Skip = False,
                                       Input = nwa (msg_Entity inp),
                                       Output = output,
                                       Internal = False, StatusCode = [], ErrMessage = [],
                                       ClientStreaming = meth_ClientStreaming meth,
                                       ServerStreaming = meth_ServerStreaming meth\<rparr>;
                          methSkip = ext_bool (meth_ext_MethodSkip meth)
                      in if methSkip \<or> srvSkip then Inr (methData\<lparr>meth_data_Skip := True\<rparr>)
                         else
                           (let methInternal = ext_bool (meth_ext_InternalMethod meth);
                                methCode = (case meth_ext_InternalMethodCode meth of
                                              Some c \<Rightarrow> c | None \<Rightarrow> srvCode)
                            in case validateStatusCode methCode (meth_FullyQualifiedName meth) of
                                 Some err \<Rightarrow> Inl (Failed (error_Error err))
                               | None \<Rightarrow>
                                  (let methErrMsg =
                                         (case meth_ext_InternalMethodErrMessage meth of
                                            Some s \<Rightarrow> s | None \<Rightarrow> srvErrMsg);
                                       methErrMsg = applySpecifiers methErrMsg
                                                      (meth_data_Name methData) srvName
                                   in Inr (methData\<lparr>ErrMessage := ''`'' @ methErrMsg @ ''`'',
                                             StatusCode := Code_String methCode,
                                             Internal := (srvInternal \<or> methInternal)\<rparr>))))))))"

fun processService_methods ::
  "(Entity \<Rightarrow> string) \<Rightarrow> bool \<Rightarrow> bool \<Rightarrow> 32 word \<Rightarrow> string \<Rightarrow> Method list \<Rightarrow> ServiceData
     \<Rightarrow> failure + ServiceData" where
  "processService_methods nwa srvSkip srvInternal srvCode srvErrMsg [] srvData = Inr srvData"
| "processService_methods nwa srvSkip srvInternal srvCode srvErrMsg (meth # rest) srvData =
     (case processService_method nwa (srv_data_Name srvData) srvSkip srvInternal srvCode
             srvErrMsg meth of
        Inl f \<Rightarrow> Inl f
      | Inr methData \<Rightarrow>
          processService_methods nwa srvSkip srvInternal srvCode srvErrMsg rest
            (srvData\<lparr>Methods := Methods srvData @ [methData]\<rparr>))"

definition processService :: "(Entity \<Rightarrow> string) \<Rightarrow> Service \<Rightarrow> failure + ServiceData" where
  "processService nwa srv =
     (case validateService srv of
        Some err \<Rightarrow> Inl (Failed (''Cannot process service: '' @ error_Error err))
      | None \<Rightarrow>
         recoverFromPanic (''processing service '' @ srv_FullyQualifiedName srv)
          (let srvData = \<lparr>srv_data_Name = srv_ctx_Name srv, srv_data_Skip = False,
                           Methods = []\<rparr>;
               srvSkip = ext_bool (srv_ext_ServiceSkip srv);
               srvData = (if srvSkip then srvData\<lparr>srv_data_Skip := True\<rparr> else srvData);
               srvInternal = ext_bool (srv_ext_InternalService srv);
               srvCode = (case srv_ext_InternalServiceCode srv of
                            Some c \<Rightarrow> c | None \<Rightarrow> PermissionDenied)
           in case validateStatusCode srvCode (srv_FullyQualifiedName srv) of
                Some err \<Rightarrow> Inl (Failed (error_Error err))
              | None \<Rightarrow>
                 (let srvErrMsg = (case srv_ext_InternalServiceErrMessage srv of
                                     Some s \<Rightarrow> s | None \<Rightarrow> defaultErrMsg)
                  in processService_methods nwa srvSkip srvInternal srvCode srvErrMsg
                       (srv_Methods srv) srvData)))"

section \<open>Example schema\<close>

text \<open>A small schema in the style of the user service of the README, for concrete runs.\<close>

definition example_aliases :: "string \<rightharpoonup> string" where
  "example_aliases = [''example/common/pb'' \<mapsto> ''pb'']"

definition example_User :: Message where
  "example_User = \<lparr>msg_FullyQualifiedName = ''.user.User'',
     msg_Entity = \<lparr>ent_Name = ''User'', ent_ImportPath = ''example/user/pb''\<rparr>,
     msg_ext_Ignored = None, msg_ext_Nil = None, msg_ext_Empty = None, msg_Fields = []\<rparr>"

definition example_Request :: Message where
  "example_Request = \<lparr>msg_FullyQualifiedName = ''.user.GetUserRequest'',
     msg_Entity = \<lparr>ent_Name = ''GetUserRequest'', ent_ImportPath = ''example/user/pb''\<rparr>,
     msg_ext_Ignored = None, msg_ext_Nil = None, msg_ext_Empty = None, msg_Fields = []\<rparr>"

definition example_method ::
  "string \<Rightarrow> bool option \<Rightarrow> 32 word option \<Rightarrow> string option \<Rightarrow> Method" where
  "example_method name skip code msg = \<lparr>meth_Name = name,
     meth_FullyQualifiedName = ''.user.Chat.'' @ name, meth_ctx_Name = name,
     meth_Input = Some example_Request, meth_Output = Some example_User,
     meth_ClientStreaming = False, meth_ServerStreaming = False,
     meth_ext_MethodSkip = skip, meth_ext_InternalMethod = Some True,
     meth_ext_InternalMethodCode = code, meth_ext_InternalMethodErrMessage = msg\<rparr>"

definition example_service :: "bool option \<Rightarrow> 32 word option \<Rightarrow> Method list \<Rightarrow> Service" where
  "example_service skip code meths = \<lparr>srv_FullyQualifiedName = ''.user.Chat'',
     srv_ctx_Name = ''Chat'', srv_Methods = meths, srv_ext_ServiceSkip = skip,
     srv_ext_InternalService = None, srv_ext_InternalServiceCode = code,
     srv_ext_InternalServiceErrMessage = None\<rparr>"

section \<open>Properties\<close>

text \<open>
  C1. The default-value table: every numeric kind (the integer, fixed, floating and enum
  kinds) has the singular default \<open>0\<close>, bool has \<open>false\<close>, string has the quoted
  placeholder \<open>"REDACTED"\<close>, bytes has \<open>nil\<close> whatever the collection flag, a singular
  message has the sentinel \<open>-\<close>, and every kind has \<open>nil\<close> when the collection flag is
  set.
\<close>

theorem RedactionDefaults_table:
  "RedactionDefaults Int32T False = ''0'' \<and> RedactionDefaults Int64T False = ''0''
   \<and> RedactionDefaults UInt32T False = ''0'' \<and> RedactionDefaults UInt64T False = ''0''
   \<and> RedactionDefaults SInt32 False = ''0'' \<and> RedactionDefaults SInt64 False = ''0''
   \<and> RedactionDefaults Fixed32T False = ''0'' \<and> RedactionDefaults Fixed64T False = ''0''
   \<and> RedactionDefaults SFixed32 False = ''0'' \<and> RedactionDefaults SFixed64 False = ''0''
   \<and> RedactionDefaults FloatT False = ''0'' \<and> RedactionDefaults DoubleT False = ''0''
   \<and> RedactionDefaults EnumT False = ''0''
   \<and> RedactionDefaults BoolT False = ''false''
   \<and> RedactionDefaults StringT False = ''\"REDACTED\"''
   \<and> RedactionDefaults BytesT isCollection = ''nil''
   \<and> RedactionDefaults MessageT False = ''-''
   \<and> RedactionDefaults typ True = ''nil''"
  by (cases isCollection) simp_all


subsection \<open>Facts about the service resolver\<close>

lemma validateStatusCode_None: "(validateStatusCode code location = None) = (code \<le> 16)"
  by (auto simp add: validateStatusCode_def)

lemma validateStatusCode_Some:
  "16 < code \<Longrightarrow> validateStatusCode code location =
     Some (ValidationErr \<lparr>
          Entity = ''status code in '' @ location,
          Expected = ''valid gRPC status code (0-16)'',
          Got = fmt_nat (unat code),
          Hint = ''see https://grpc.io/docs/guides/status-codes/ for valid codes''\<rparr>)"
  by (simp add: validateStatusCode_def)

lemma recoverFromPanic_Inr: "(recoverFromPanic c r = Inr x) = (r = Inr x)"
proof (cases r)
  case (Inl f)
  then show ?thesis by (cases f) (simp_all add: recoverFromPanic_def)
next
  case (Inr y)
  then show ?thesis by (simp add: recoverFromPanic_def)
qed

lemma processMessage_nofields:
  "(\<exists>md. processMessage nwa msg [] = Inr md) = (validateMessage msg = None)"
  by (cases "validateMessage msg") (simp_all add: processMessage_def recoverFromPanic_def Let_def)

lemma processService_method_pre:
  assumes ok: "processService_method nwa srvName srvSkip srvInternal srvCode srvErrMsg meth = Inr md"
  shows "\<exists>inp out outd. validateMethod meth = None \<and> meth_Input meth = Some inp
     \<and> meth_Output meth = Some out \<and> processMessage nwa out [] = Inr outd"
proof -
  from ok have vm: "validateMethod meth = None"
    by (cases "validateMethod meth") (simp_all add: processService_method_def)
  from ok vm obtain inp where inp: "meth_Input meth = Some inp"
    by (cases "meth_Input meth") (simp_all add: processService_method_def)
  from ok vm inp obtain out where out: "meth_Output meth = Some out"
    by (cases "meth_Output meth") (simp_all add: processService_method_def)
  from ok vm inp out obtain outd where outd: "processMessage nwa out [] = Inr outd"
    by (cases "processMessage nwa out []") (simp_all add: processService_method_def)
  from vm inp out outd show ?thesis by blast
qed

lemma processService_method_skip:
  assumes "validateMethod meth = None" "meth_Input meth = Some inp" "meth_Output meth = Some out"
    "processMessage nwa out [] = Inr outd" "ext_bool (meth_ext_MethodSkip meth) \<or> srvSkip"
  shows "processService_method nwa srvName srvSkip srvInternal srvCode srvErrMsg meth =
     Inr \<lparr>meth_data_Name = meth_ctx_Name meth, meth_data_Skip = True,
        Input = nwa (msg_Entity inp), Output = outd,
        Internal = False, StatusCode = [], ErrMessage = [],
        ClientStreaming = meth_ClientStreaming meth,
        ServerStreaming = meth_ServerStreaming meth\<rparr>"
  using assms by (simp add: processService_method_def Let_def)

lemma processService_method_noskip:
  assumes "validateMethod meth = None" "meth_Input meth = Some inp" "meth_Output meth = Some out"
    "processMessage nwa out [] = Inr outd" "\<not> (ext_bool (meth_ext_MethodSkip meth) \<or> srvSkip)"
  shows "processService_method nwa srvName srvSkip srvInternal srvCode srvErrMsg meth =
     (case validateStatusCode
             (case meth_ext_InternalMethodCode meth of Some c \<Rightarrow> c | None \<Rightarrow> srvCode)
             (meth_FullyQualifiedName meth) of
        Some err \<Rightarrow> Inl (Failed (error_Error err))
      | None \<Rightarrow>
         Inr \<lparr>meth_data_Name = meth_ctx_Name meth, meth_data_Skip = False,
           Input = nwa (msg_Entity inp), Output = outd,
           Internal = (srvInternal \<or> ext_bool (meth_ext_InternalMethod meth)),
           StatusCode = Code_String
             (case meth_ext_InternalMethodCode meth of Some c \<Rightarrow> c | None \<Rightarrow> srvCode),
           ErrMessage = ''`'' @ applySpecifiers
             (case meth_ext_InternalMethodErrMessage meth of Some s \<Rightarrow> s | None \<Rightarrow> srvErrMsg)
             (meth_ctx_Name meth) srvName @ ''`'',
           ClientStreaming = meth_ClientStreaming meth,
           ServerStreaming = meth_ServerStreaming meth\<rparr>)"
  using assms by (simp add: processService_method_def Let_def split: option.split)

lemma processService_method_Inr:
  assumes ok: "processService_method nwa srvName srvSkip srvInternal srvCode srvErrMsg meth = Inr md"
  shows "meth_data_Name md = meth_ctx_Name meth"
    and "meth_data_Skip md = (ext_bool (meth_ext_MethodSkip meth) \<or> srvSkip)"
    and "meth_data_Skip md \<Longrightarrow> \<not> Internal md \<and> StatusCode md = [] \<and> ErrMessage md = []"
    and "\<not> meth_data_Skip md \<Longrightarrow>
           (case meth_ext_InternalMethodCode meth of Some c \<Rightarrow> c | None \<Rightarrow> srvCode) \<le> 16
         \<and> StatusCode md = Code_String
              (case meth_ext_InternalMethodCode meth of Some c \<Rightarrow> c | None \<Rightarrow> srvCode)
         \<and> Internal md = (srvInternal \<or> ext_bool (meth_ext_InternalMethod meth))
         \<and> ErrMessage md = ''`'' @ applySpecifiers
               (case meth_ext_InternalMethodErrMessage meth of Some s \<Rightarrow> s | None \<Rightarrow> srvErrMsg)
               (meth_ctx_Name meth) srvName @ ''`''"
proof -
  from processService_method_pre [OF ok] obtain inp out outd where
    pre: "validateMethod meth = None" "meth_Input meth = Some inp"
         "meth_Output meth = Some out" "processMessage nwa out [] = Inr outd"
    by blast
  have all: "meth_data_Name md = meth_ctx_Name meth
    \<and> meth_data_Skip md = (ext_bool (meth_ext_MethodSkip meth) \<or> srvSkip)
    \<and> (meth_data_Skip md \<longrightarrow> \<not> Internal md \<and> StatusCode md = [] \<and> ErrMessage md = [])
    \<and> (\<not> meth_data_Skip md \<longrightarrow>
           (case meth_ext_InternalMethodCode meth of Some c \<Rightarrow> c | None \<Rightarrow> srvCode) \<le> 16
         \<and> StatusCode md = Code_String
              (case meth_ext_InternalMethodCode meth of Some c \<Rightarrow> c | None \<Rightarrow> srvCode)
         \<and> Internal md = (srvInternal \<or> ext_bool (meth_ext_InternalMethod meth))
         \<and> ErrMessage md = ''`'' @ applySpecifiers
               (case meth_ext_InternalMethodErrMessage meth of Some s \<Rightarrow> s | None \<Rightarrow> srvErrMsg)
               (meth_ctx_Name meth) srvName @ ''`'')"
  proof (cases "ext_bool (meth_ext_MethodSkip meth) \<or> srvSkip")
    case True
    from ok processService_method_skip [OF pre True, of srvName srvInternal srvCode srvErrMsg]
    have "md = \<lparr>meth_data_Name = meth_ctx_Name meth, meth_data_Skip = True,
        Input = nwa (msg_Entity inp), Output = outd,
        Internal = False, StatusCode = [], ErrMessage = [],
        ClientStreaming = meth_ClientStreaming meth,
        ServerStreaming = meth_ServerStreaming meth\<rparr>" by simp
    with True show ?thesis by simp
  next
    case False
    note eq = processService_method_noskip [OF pre False, of srvName srvInternal srvCode srvErrMsg]
    from ok eq have v: "validateStatusCode
        (case meth_ext_InternalMethodCode meth of Some c \<Rightarrow> c | None \<Rightarrow> srvCode)
        (meth_FullyQualifiedName meth) = None"
      by (cases "validateStatusCode
            (case meth_ext_InternalMethodCode meth of Some c \<Rightarrow> c | None \<Rightarrow> srvCode)
            (meth_FullyQualifiedName meth)") simp_all
    from ok eq v have "md = \<lparr>meth_data_Name = meth_ctx_Name meth, meth_data_Skip = False,
        Input = nwa (msg_Entity inp), Output = outd,
        Internal = (srvInternal \<or> ext_bool (meth_ext_InternalMethod meth)),
        StatusCode = Code_String
          (case meth_ext_InternalMethodCode meth of Some c \<Rightarrow> c | None \<Rightarrow> srvCode),
        ErrMessage = ''`'' @ applySpecifiers
               (case meth_ext_InternalMethodErrMessage meth of Some s \<Rightarrow> s | None \<Rightarrow> srvErrMsg)
               (meth_ctx_Name meth) srvName @ ''`'',
        ClientStreaming = meth_ClientStreaming meth,
        ServerStreaming = meth_ServerStreaming meth\<rparr>" by simp
    moreover from v
    have "(case meth_ext_InternalMethodCode meth of Some c \<Rightarrow> c | None \<Rightarrow> srvCode) \<le> 16"
      by (simp add: validateStatusCode_None)
    ultimately show ?thesis using False by simp
  qed
  from all show "meth_data_Name md = meth_ctx_Name meth" by blast
  from all show "meth_data_Skip md = (ext_bool (meth_ext_MethodSkip meth) \<or> srvSkip)" by blast
  from all show "meth_data_Skip md \<Longrightarrow> \<not> Internal md \<and> StatusCode md = [] \<and> ErrMessage md = []"
    by blast
  from all show "\<not> meth_data_Skip md \<Longrightarrow>
           (case meth_ext_InternalMethodCode meth of Some c \<Rightarrow> c | None \<Rightarrow> srvCode) \<le> 16
         \<and> StatusCode md = Code_String
              (case meth_ext_InternalMethodCode meth of Some c \<Rightarrow> c | None \<Rightarrow> srvCode)
         \<and> Internal md = (srvInternal \<or> ext_bool (meth_ext_InternalMethod meth))
         \<and> ErrMessage md = ''`'' @ applySpecifiers
               (case meth_ext_InternalMethodErrMessage meth of Some s \<Rightarrow> s | None \<Rightarrow> srvErrMsg)
               (meth_ctx_Name meth) srvName @ ''`''" by blast
qed

lemma processService_method_skip_ok:
  assumes "srvSkip" "validateMethod meth = None"
    "\<forall>out. meth_Output meth = Some out \<longrightarrow> validateMessage out = None"
  shows "\<exists>md. processService_method nwa srvName srvSkip srvInternal srvCode srvErrMsg meth = Inr md"
proof -
  from assms(2) obtain inp where inp: "meth_Input meth = Some inp"
    by (cases "meth_Input meth") (simp_all add: validateMethod_def)
  from assms(2) inp obtain out where out: "meth_Output meth = Some out"
    by (cases "meth_Output meth") (simp_all add: validateMethod_def)
  with assms(3) have "validateMessage out = None" by simp
  then obtain outd where "processMessage nwa out [] = Inr outd"
    using processMessage_nofields [of nwa out] by blast
  from processService_method_skip [OF assms(2) inp out this, of srvSkip] assms(1)
  show ?thesis by blast
qed

lemma processService_methods_Inr:
  "processService_methods nwa sk si sc sm meths sd = Inr sd' \<Longrightarrow>
     srv_data_Name sd' = srv_data_Name sd \<and> srv_data_Skip sd' = srv_data_Skip sd \<and>
     (\<exists>mds. Methods sd' = Methods sd @ mds \<and>
        list_all2 (\<lambda>meth md. processService_method nwa (srv_data_Name sd) sk si sc sm meth = Inr md)
          meths mds)"
proof (induction meths arbitrary: sd)
  case Nil
  then show ?case by simp
next
  case (Cons meth rest)
  from Cons.prems obtain md where
    md: "processService_method nwa (srv_data_Name sd) sk si sc sm meth = Inr md"
    by (cases "processService_method nwa (srv_data_Name sd) sk si sc sm meth") simp_all
  with Cons.prems have
    "processService_methods nwa sk si sc sm rest (sd\<lparr>Methods := Methods sd @ [md]\<rparr>) = Inr sd'"
    by simp
  from Cons.IH [OF this] md show ?case by auto
qed

lemma processService_methods_ok:
  "\<forall>meth \<in> set meths. \<exists>md. processService_method nwa (srv_data_Name sd) sk si sc sm meth = Inr md
   \<Longrightarrow> \<exists>sd'. processService_methods nwa sk si sc sm meths sd = Inr sd'"
proof (induction meths arbitrary: sd)
  case Nil
  then show ?case by simp
next
  case (Cons meth rest)
  then obtain md where
    md: "processService_method nwa (srv_data_Name sd) sk si sc sm meth = Inr md" by auto
  have "\<forall>m \<in> set rest. \<exists>md'. processService_method nwa
          (srv_data_Name (sd\<lparr>Methods := Methods sd @ [md]\<rparr>)) sk si sc sm m = Inr md'"
    using Cons.prems by simp
  from Cons.IH [OF this] md show ?case by simp
qed

lemma validateService_code:
  "validateService srv = None \<Longrightarrow>
   validateStatusCode
     (case srv_ext_InternalServiceCode srv of Some c \<Rightarrow> c | None \<Rightarrow> PermissionDenied)
     (srv_FullyQualifiedName srv) = None"
  by (cases "srv_ext_InternalServiceCode srv")
     (simp_all add: validateService_def PermissionDenied_def validateStatusCode_def)

lemma processService_Inr_iff:
  "(processService nwa srv = Inr sd) =
   (validateService srv = None \<and>
    processService_methods nwa (ext_bool (srv_ext_ServiceSkip srv))
        (ext_bool (srv_ext_InternalService srv))
        (case srv_ext_InternalServiceCode srv of Some c \<Rightarrow> c | None \<Rightarrow> PermissionDenied)
        (case srv_ext_InternalServiceErrMessage srv of Some s \<Rightarrow> s | None \<Rightarrow> defaultErrMsg)
        (srv_Methods srv)
        \<lparr>srv_data_Name = srv_ctx_Name srv, srv_data_Skip = ext_bool (srv_ext_ServiceSkip srv),
         Methods = []\<rparr> = Inr sd)"
proof (cases "validateService srv")
  case None
  from validateService_code [OF None] None show ?thesis
    by (simp add: processService_def recoverFromPanic_Inr Let_def)
next
  case (Some err)
  then show ?thesis by (simp add: processService_def)
qed

lemma processService_Inr:
  assumes "processService nwa srv = Inr sd"
  shows "srv_data_Name sd = srv_ctx_Name srv"
    and "srv_data_Skip sd = ext_bool (srv_ext_ServiceSkip srv)"
    and "list_all2 (\<lambda>meth md. processService_method nwa (srv_ctx_Name srv)
            (ext_bool (srv_ext_ServiceSkip srv)) (ext_bool (srv_ext_InternalService srv))
            (case srv_ext_InternalServiceCode srv of Some c \<Rightarrow> c | None \<Rightarrow> PermissionDenied)
            (case srv_ext_InternalServiceErrMessage srv of Some s \<Rightarrow> s | None \<Rightarrow> defaultErrMsg)
            meth = Inr md) (srv_Methods srv) (Methods sd)"
proof -
  from assms have "processService_methods nwa (ext_bool (srv_ext_ServiceSkip srv))
        (ext_bool (srv_ext_InternalService srv))
        (case srv_ext_InternalServiceCode srv of Some c \<Rightarrow> c | None \<Rightarrow> PermissionDenied)
        (case srv_ext_InternalServiceErrMessage srv of Some s \<Rightarrow> s | None \<Rightarrow> defaultErrMsg)
        (srv_Methods srv)
        \<lparr>srv_data_Name = srv_ctx_Name srv, srv_data_Skip = ext_bool (srv_ext_ServiceSkip srv),
         Methods = []\<rparr> = Inr sd"
    by (simp add: processService_Inr_iff)
  from processService_methods_Inr [OF this]
  show "srv_data_Name sd = srv_ctx_Name srv"
    and "srv_data_Skip sd = ext_bool (srv_ext_ServiceSkip srv)"
    and "list_all2 (\<lambda>meth md. processService_method nwa (srv_ctx_Name srv)
            (ext_bool (srv_ext_ServiceSkip srv)) (ext_bool (srv_ext_InternalService srv))
            (case srv_ext_InternalServiceCode srv of Some c \<Rightarrow> c | None \<Rightarrow> PermissionDenied)
            (case srv_ext_InternalServiceErrMessage srv of Some s \<Rightarrow> s | None \<Rightarrow> defaultErrMsg)
            meth = Inr md) (srv_Methods srv) (Methods sd)"
    by simp_all
qed

text \<open>
  C8. A service that carries the skip option resolves exactly when its own validation,
  the validation of each method and the option check of each output message pass; every
  decision it then produces is marked skipped, holds one method decision per method of
  the service, in order and under the method's name, and every method decision is
  marked skipped.
\<close>

theorem service_skip_methods_built:
  assumes skip: "ext_bool (srv_ext_ServiceSkip srv)"
  shows "((\<exists>sd. processService nwa srv = Inr sd) =
            (validateService srv = None \<and>
             (\<forall>meth \<in> set (srv_Methods srv). validateMethod meth = None \<and>
                (\<forall>out. meth_Output meth = Some out \<longrightarrow> validateMessage out = None))))
       \<and> (\<forall>sd. processService nwa srv = Inr sd \<longrightarrow>
             srv_data_Skip sd
           \<and> length (Methods sd) = length (srv_Methods srv)
           \<and> map meth_data_Name (Methods sd) = map meth_ctx_Name (srv_Methods srv)
           \<and> (\<forall>md \<in> set (Methods sd). meth_data_Skip md))"
proof (intro conjI allI impI)
  fix sd assume ok: "processService nwa srv = Inr sd"
  note l2 = processService_Inr(3) [OF ok]
  from processService_Inr(2) [OF ok] skip show "srv_data_Skip sd" by simp
  from l2 show "length (Methods sd) = length (srv_Methods srv)"
    by (simp add: list_all2_lengthD)
  from l2 have "list_all2 (\<lambda>meth md. meth_data_Name md = meth_ctx_Name meth)
                  (srv_Methods srv) (Methods sd)"
    by (rule list_all2_mono) (simp add: processService_method_Inr(1))
  then show "map meth_data_Name (Methods sd) = map meth_ctx_Name (srv_Methods srv)"
    by (induction rule: list_all2_induct) simp_all
  from l2 have "list_all2 (\<lambda>meth md. meth_data_Skip md) (srv_Methods srv) (Methods sd)"
    by (rule list_all2_mono) (simp add: processService_method_Inr(2) skip)
  then show "\<forall>md \<in> set (Methods sd). meth_data_Skip md"
    by (induction rule: list_all2_induct) simp_all
next
  show "(\<exists>sd. processService nwa srv = Inr sd) =
            (validateService srv = None \<and>
             (\<forall>meth \<in> set (srv_Methods srv). validateMethod meth = None \<and>
                (\<forall>out. meth_Output meth = Some out \<longrightarrow> validateMessage out = None)))"
  proof
    assume "\<exists>sd. processService nwa srv = Inr sd"
    then obtain sd where ok: "processService nwa srv = Inr sd" ..
    then have vs: "validateService srv = None" by (simp add: processService_Inr_iff)
    note l2 = processService_Inr(3) [OF ok]
    have "\<forall>meth \<in> set (srv_Methods srv). validateMethod meth = None \<and>
                (\<forall>out. meth_Output meth = Some out \<longrightarrow> validateMessage out = None)"
    proof
      fix meth assume "meth \<in> set (srv_Methods srv)"
      with l2 obtain md where "processService_method nwa (srv_ctx_Name srv)
            (ext_bool (srv_ext_ServiceSkip srv)) (ext_bool (srv_ext_InternalService srv))
            (case srv_ext_InternalServiceCode srv of Some c \<Rightarrow> c | None \<Rightarrow> PermissionDenied)
            (case srv_ext_InternalServiceErrMessage srv of Some s \<Rightarrow> s | None \<Rightarrow> defaultErrMsg)
            meth = Inr md"
        by (auto simp add: list_all2_conv_all_nth in_set_conv_nth)
      from processService_method_pre [OF this] obtain inp out outd where
        "validateMethod meth = None" "meth_Output meth = Some out"
        "processMessage nwa out [] = Inr outd" "meth_Input meth = Some inp" by blast
      moreover from this(3) have "validateMessage out = None"
        using processMessage_nofields [of nwa out] by blast
      ultimately show "validateMethod meth = None \<and>
                (\<forall>out. meth_Output meth = Some out \<longrightarrow> validateMessage out = None)" by simp
    qed
    with vs show "validateService srv = None \<and>
             (\<forall>meth \<in> set (srv_Methods srv). validateMethod meth = None \<and>
                (\<forall>out. meth_Output meth = Some out \<longrightarrow> validateMessage out = None))" by simp
  next
    assume a: "validateService srv = None \<and>
             (\<forall>meth \<in> set (srv_Methods srv). validateMethod meth = None \<and>
                (\<forall>out. meth_Output meth = Some out \<longrightarrow> validateMessage out = None))"
    then have "\<forall>meth \<in> set (srv_Methods srv). \<exists>md. processService_method nwa
            (srv_data_Name \<lparr>srv_data_Name = srv_ctx_Name srv,
               srv_data_Skip = ext_bool (srv_ext_ServiceSkip srv), Methods = []\<rparr>)
            (ext_bool (srv_ext_ServiceSkip srv)) (ext_bool (srv_ext_InternalService srv))
            (case srv_ext_InternalServiceCode srv of Some c \<Rightarrow> c | None \<Rightarrow> PermissionDenied)
            (case srv_ext_InternalServiceErrMessage srv of Some s \<Rightarrow> s | None \<Rightarrow> defaultErrMsg)
            meth = Inr md"
      using processService_method_skip_ok [OF skip] by blast
    from processService_methods_ok [OF this] a
    show "\<exists>sd. processService nwa srv = Inr sd"
      by (simp add: processService_Inr_iff)
  qed
qed

theorem service_skip_methods_built_witness:
  "ext_bool (srv_ext_ServiceSkip (example_service (Some True) None
       [example_method ''GetUser'' None (Some 3) None, example_method ''ListUsers'' (Some True) None None]))
   \<and> (\<exists>sd. processService (nameWithAlias example_aliases) (example_service (Some True) None
       [example_method ''GetUser'' None (Some 3) None, example_method ''ListUsers'' (Some True) None None]) = Inr sd
         \<and> srv_data_Skip sd \<and> length (Methods sd) = 2
         \<and> map meth_data_Name (Methods sd) = [''GetUser'', ''ListUsers'']
         \<and> (\<forall>md \<in> set (Methods sd). meth_data_Skip md))"
proof -
  let ?srv = "example_service (Some True) None
       [example_method ''GetUser'' None (Some 3) None, example_method ''ListUsers'' (Some True) None None]"
  have skip: "ext_bool (srv_ext_ServiceSkip ?srv)" by code_simp
  have valid: "validateService ?srv = None \<and>
             (\<forall>meth \<in> set (srv_Methods ?srv). validateMethod meth = None \<and>
                (\<forall>out. meth_Output meth = Some out \<longrightarrow> validateMessage out = None))"
    by (simp add: example_service_def example_method_def example_User_def example_Request_def
          validateService_def validateMethod_def validateMessage_def ext_bool_def
          validateStatusCode_None)
  have meths: "length (srv_Methods ?srv) = 2"
     "map meth_ctx_Name (srv_Methods ?srv) = [''GetUser'', ''ListUsers'']"
    by (simp_all add: example_service_def example_method_def)
  from service_skip_methods_built [OF skip, of "nameWithAlias example_aliases"] valid
  obtain sd where "processService (nameWithAlias example_aliases) ?srv = Inr sd"
    and "srv_data_Skip sd \<and> length (Methods sd) = length (srv_Methods ?srv)
           \<and> map meth_data_Name (Methods sd) = map meth_ctx_Name (srv_Methods ?srv)
           \<and> (\<forall>md \<in> set (Methods sd). meth_data_Skip md)"
    by blast
  with skip meths show ?thesis by simp
qed

text \<open>
  C4. Message validation fails, with the error that asks for at most one of the three
  options, exactly when more than one of ignore, nil and empty is set; with none or one
  of them set it succeeds, and so does the resolution of the message.
\<close>

theorem validateMessage_mutually_exclusive:
  "validateMessage msg =
     (if 1 < length (filter id [ext_bool (msg_ext_Ignored msg), ext_bool (msg_ext_Nil msg),
                                 ext_bool (msg_ext_Empty msg)])
      then Some (ValidationErr \<lparr>
             Entity = ''message '' @ msg_FullyQualifiedName msg,
             Expected = ''at most one of (redact.ignored), (redact.nil), or (redact.empty)'',
             Got = ''multiple options set (ignored='' @ fmt_bool (ext_bool (msg_ext_Ignored msg))
                   @ '', nil='' @ fmt_bool (ext_bool (msg_ext_Nil msg))
                   @ '', empty='' @ fmt_bool (ext_bool (msg_ext_Empty msg)) @ '')'',
             Hint = ''these options are mutually exclusive''\<rparr>)
      else None)
   \<and> ((\<exists>md. processMessage nwa msg [] = Inr md) =
        (length (filter id [ext_bool (msg_ext_Ignored msg), ext_bool (msg_ext_Nil msg),
                            ext_bool (msg_ext_Empty msg)]) \<le> 1))"
proof -
  have a: "validateMessage msg =
     (if 1 < length (filter id [ext_bool (msg_ext_Ignored msg), ext_bool (msg_ext_Nil msg),
                                 ext_bool (msg_ext_Empty msg)])
      then Some (ValidationErr \<lparr>
             Entity = ''message '' @ msg_FullyQualifiedName msg,
             Expected = ''at most one of (redact.ignored), (redact.nil), or (redact.empty)'',
             Got = ''multiple options set (ignored='' @ fmt_bool (ext_bool (msg_ext_Ignored msg))
                   @ '', nil='' @ fmt_bool (ext_bool (msg_ext_Nil msg))
                   @ '', empty='' @ fmt_bool (ext_bool (msg_ext_Empty msg)) @ '')'',
             Hint = ''these options are mutually exclusive''\<rparr>)
      else None)"
    by (simp add: validateMessage_def Let_def)
  then have "(validateMessage msg = None) =
        (length (filter id [ext_bool (msg_ext_Ignored msg), ext_bool (msg_ext_Nil msg),
                            ext_bool (msg_ext_Empty msg)]) \<le> 1)"
    by (simp add: not_less)
  with a show ?thesis by (simp only: processMessage_nofields) 
qed

theorem validateMessage_mutually_exclusive_witness:
  "validateMessage (example_User\<lparr>msg_ext_Ignored := Some True, msg_ext_Empty := Some True\<rparr>) =
     Some (ValidationErr \<lparr>
             Entity = ''message .user.User'',
             Expected = ''at most one of (redact.ignored), (redact.nil), or (redact.empty)'',
             Got = ''multiple options set (ignored=true, nil=false, empty=true)'',
             Hint = ''these options are mutually exclusive''\<rparr>)
   \<and> \<not> (\<exists>md. processMessage (nameWithAlias example_aliases)
              (example_User\<lparr>msg_ext_Ignored := Some True, msg_ext_Empty := Some True\<rparr>) [] = Inr md)
   \<and> validateMessage (example_User\<lparr>msg_ext_Nil := Some True\<rparr>) = None
   \<and> (\<exists>md. processMessage (nameWithAlias example_aliases)
              (example_User\<lparr>msg_ext_Nil := Some True\<rparr>) [] = Inr md)"
  using validateMessage_mutually_exclusive
          [of "example_User\<lparr>msg_ext_Ignored := Some True, msg_ext_Empty := Some True\<rparr>"
              "nameWithAlias example_aliases"]
        validateMessage_mutually_exclusive
          [of "example_User\<lparr>msg_ext_Nil := Some True\<rparr>" "nameWithAlias example_aliases"]
  by (simp add: example_User_def ext_bool_def fmt_bool_def)

text \<open>
  C5. A status code is valid exactly when it lies in the closed interval from 0 to 16:
  0 and 16 pass, anything above 16 fails with an error whose entity names the location.
  The same check guards the service-level code (failing with the service's name) and the
  method-level code (failing with the method's name), and the code a method decision
  carries is the method's own code when it has one, the service's code otherwise.
\<close>

theorem status_code_boundary:
  "((validateStatusCode code location = None) = (unat code \<le> 16))
   \<and> (validateStatusCode 0 location = None \<and> validateStatusCode 16 location = None)
   \<and> (16 < code \<longrightarrow> validateStatusCode code location =
        Some (ValidationErr \<lparr>
          Entity = ''status code in '' @ location,
          Expected = ''valid gRPC status code (0-16)'',
          Got = fmt_nat (unat code),
          Hint = ''see https://grpc.io/docs/guides/status-codes/ for valid codes''\<rparr>))
   \<and> ((validateService srv = None) =
        (\<forall>c. srv_ext_InternalServiceCode srv = Some c \<longrightarrow> unat c \<le> 16))
   \<and> (srv_ext_InternalServiceCode srv = Some scode \<and> 16 < scode \<longrightarrow>
        processService nwa srv =
          Inl (Failed (''Cannot process service: '' @ ValidationError_Error \<lparr>
            Entity = ''status code in '' @ srv_FullyQualifiedName srv,
            Expected = ''valid gRPC status code (0-16)'',
            Got = fmt_nat (unat scode),
            Hint = ''see https://grpc.io/docs/guides/status-codes/ for valid codes''\<rparr>)))
   \<and> (meth_Input meth \<noteq> None \<and> meth_Output meth \<noteq> None \<longrightarrow>
        (validateMethod meth = None) =
        (\<forall>c. meth_ext_InternalMethodCode meth = Some c \<longrightarrow> unat c \<le> 16))
   \<and> (meth_Input meth \<noteq> None \<and> meth_Output meth \<noteq> None
        \<and> meth_ext_InternalMethodCode meth = Some mcode \<and> 16 < mcode \<longrightarrow>
        processService_method nwa srvName srvSkip srvInternal srvCode srvErrMsg meth =
          Inl (Failed (''Cannot process method '' @ meth_FullyQualifiedName meth @ '': ''
            @ ValidationError_Error \<lparr>
              Entity = ''status code in '' @ meth_FullyQualifiedName meth,
              Expected = ''valid gRPC status code (0-16)'',
              Got = fmt_nat (unat mcode),
              Hint = ''see https://grpc.io/docs/guides/status-codes/ for valid codes''\<rparr>)))
   \<and> (processService nwa srv2 = Inr sd \<longrightarrow>
        list_all2 (\<lambda>meth md. \<not> meth_data_Skip md \<longrightarrow>
            StatusCode md = Code_String
              (case meth_ext_InternalMethodCode meth of
                 Some c \<Rightarrow> c
               | None \<Rightarrow> (case srv_ext_InternalServiceCode srv2 of
                            Some c \<Rightarrow> c | None \<Rightarrow> PermissionDenied)))
          (srv_Methods srv2) (Methods sd))"
proof -
  have le: "\<And>c::32 word. (c \<le> 16) = (unat c \<le> 16)" by (simp add: word_le_nat_alt)
  have p1: "(validateStatusCode code location = None) = (unat code \<le> 16)"
    by (simp add: validateStatusCode_None le)
  have p2: "validateStatusCode 0 location = None \<and> validateStatusCode 16 location = None"
    by (simp add: validateStatusCode_None)
  have p3: "16 < code \<longrightarrow> validateStatusCode code location =
     Some (ValidationErr \<lparr>
          Entity = ''status code in '' @ location,
          Expected = ''valid gRPC status code (0-16)'',
          Got = fmt_nat (unat code),
          Hint = ''see https://grpc.io/docs/guides/status-codes/ for valid codes''\<rparr>)"
    by (simp add: validateStatusCode_Some)
  have p4: "(validateService srv = None) =
        (\<forall>c. srv_ext_InternalServiceCode srv = Some c \<longrightarrow> unat c \<le> 16)"
    by (cases "srv_ext_InternalServiceCode srv")
       (simp_all add: validateService_def validateStatusCode_None le)
  have p5: "srv_ext_InternalServiceCode srv = Some scode \<and> 16 < scode \<longrightarrow>
     processService nwa srv =
       Inl (Failed (''Cannot process service: '' @ ValidationError_Error \<lparr>
          Entity = ''status code in '' @ srv_FullyQualifiedName srv,
          Expected = ''valid gRPC status code (0-16)'',
          Got = fmt_nat (unat scode),
          Hint = ''see https://grpc.io/docs/guides/status-codes/ for valid codes''\<rparr>))"
    by (simp add: processService_def validateService_def validateStatusCode_Some)
  have p6: "meth_Input meth \<noteq> None \<and> meth_Output meth \<noteq> None \<longrightarrow>
     (validateMethod meth = None) =
     (\<forall>c. meth_ext_InternalMethodCode meth = Some c \<longrightarrow> unat c \<le> 16)"
    by (cases "meth_ext_InternalMethodCode meth")
       (simp_all add: validateMethod_def validateStatusCode_None le)
  have p7: "meth_Input meth \<noteq> None \<and> meth_Output meth \<noteq> None
     \<and> meth_ext_InternalMethodCode meth = Some mcode \<and> 16 < mcode \<longrightarrow>
     processService_method nwa srvName srvSkip srvInternal srvCode srvErrMsg meth =
       Inl (Failed (''Cannot process method '' @ meth_FullyQualifiedName meth @ '': ''
        @ ValidationError_Error \<lparr>
          Entity = ''status code in '' @ meth_FullyQualifiedName meth,
          Expected = ''valid gRPC status code (0-16)'',
          Got = fmt_nat (unat mcode),
          Hint = ''see https://grpc.io/docs/guides/status-codes/ for valid codes''\<rparr>))"
    by (simp add: processService_method_def validateMethod_def validateStatusCode_Some)
  have p8: "processService nwa srv2 = Inr sd \<longrightarrow>
        list_all2 (\<lambda>meth md. \<not> meth_data_Skip md \<longrightarrow>
            StatusCode md = Code_String
              (case meth_ext_InternalMethodCode meth of
                 Some c \<Rightarrow> c
               | None \<Rightarrow> (case srv_ext_InternalServiceCode srv2 of
                            Some c \<Rightarrow> c | None \<Rightarrow> PermissionDenied)))
          (srv_Methods srv2) (Methods sd)"
  proof
    assume ok: "processService nwa srv2 = Inr sd"
    from processService_Inr(3) [OF ok]
    show "list_all2 (\<lambda>meth md. \<not> meth_data_Skip md \<longrightarrow>
            StatusCode md = Code_String
              (case meth_ext_InternalMethodCode meth of
                 Some c \<Rightarrow> c
               | None \<Rightarrow> (case srv_ext_InternalServiceCode srv2 of
                            Some c \<Rightarrow> c | None \<Rightarrow> PermissionDenied)))
          (srv_Methods srv2) (Methods sd)"
      by (rule list_all2_mono) (simp add: processService_method_Inr(4))
  qed
  show ?thesis
    by (rule conjI [OF p1 conjI [OF p2 conjI [OF p3 conjI [OF p4 conjI [OF p5
          conjI [OF p6 conjI [OF p7 p8]]]]]]])
qed

theorem status_code_boundary_witness:
  "validateStatusCode 17 ''.user.Chat'' \<noteq> None
   \<and> processService (nameWithAlias example_aliases)
        (example_service None (Some 17) [example_method ''GetUser'' None None None]) =
      Inl (Failed ''Cannot process service: Validation failed for status code in .user.Chat: expected valid gRPC status code (0-16), got 17 (hint: see https://grpc.io/docs/guides/status-codes/ for valid codes)'')
   \<and> processService_method (nameWithAlias example_aliases) ''Chat'' False False 7 defaultErrMsg
        (example_method ''GetUser'' None (Some 17) None) =
      Inl (Failed ''Cannot process method .user.Chat.GetUser: Validation failed for status code in .user.Chat.GetUser: expected valid gRPC status code (0-16), got 17 (hint: see https://grpc.io/docs/guides/status-codes/ for valid codes)'')
   \<and> (\<exists>sd. processService (nameWithAlias example_aliases)
          (example_service None (Some 5)
             [example_method ''GetUser'' None (Some 3) None,
              example_method ''ListUsers'' None None None]) = Inr sd
        \<and> map StatusCode (Methods sd) = [''InvalidArgument'', ''NotFound''])"
proof -
  let ?nwa = "nameWithAlias example_aliases"
  let ?srv = "example_service None (Some 17) [example_method ''GetUser'' None None None]"
  let ?meth = "example_method ''GetUser'' None (Some 17) None"
  let ?srv2 = "example_service None (Some 5)
             [example_method ''GetUser'' None (Some 3) None,
              example_method ''ListUsers'' None None None]"
  have run: "case processService ?nwa ?srv2 of
               Inl f \<Rightarrow> False
             | Inr sd \<Rightarrow> map meth_data_Skip (Methods sd) = [False, False]"
    by code_simp
  then obtain sd where ok: "processService ?nwa ?srv2 = Inr sd"
    and skips: "map meth_data_Skip (Methods sd) = [False, False]"
    by (cases "processService ?nwa ?srv2") simp_all
  note inst = status_code_boundary [of 17 "''.user.Chat''" ?srv 17 ?nwa ?meth 17
      "''Chat''" False False 7 defaultErrMsg ?srv2 sd]
  have h1: "(16::32 word) < 17" by simp
  have h2: "srv_ext_InternalServiceCode ?srv = Some 17" by (simp add: example_service_def)
  have h3: "meth_Input ?meth \<noteq> None \<and> meth_Output ?meth \<noteq> None
     \<and> meth_ext_InternalMethodCode ?meth = Some 17" by (simp add: example_method_def)
  note i3 = inst [THEN conjunct2, THEN conjunct2, THEN conjunct1, rule_format, OF h1]
  note i5 = inst [THEN conjunct2, THEN conjunct2, THEN conjunct2, THEN conjunct2, THEN conjunct1,
                  rule_format, OF conjI [OF h2 h1]]
  note i7 = inst [THEN conjunct2, THEN conjunct2, THEN conjunct2, THEN conjunct2, THEN conjunct2,
                  THEN conjunct2, THEN conjunct1, rule_format, OF conjI [OF h3 [THEN conjunct1]
                  conjI [OF h3 [THEN conjunct2, THEN conjunct1]
                  conjI [OF h3 [THEN conjunct2, THEN conjunct2] h1]]]]
  note i8 = inst [THEN conjunct2, THEN conjunct2, THEN conjunct2, THEN conjunct2, THEN conjunct2,
                  THEN conjunct2, THEN conjunct2, rule_format, OF ok]
  have c1: "validateStatusCode 17 ''.user.Chat'' \<noteq> None"
    by (simp only: i3 option.distinct not_False_eq_True)
  have t1: "''Cannot process service: '' @ ValidationError_Error \<lparr>
            Entity = ''status code in '' @ srv_FullyQualifiedName ?srv,
            Expected = ''valid gRPC status code (0-16)'',
            Got = fmt_nat (unat (17::32 word)),
            Hint = ''see https://grpc.io/docs/guides/status-codes/ for valid codes''\<rparr>
     = ''Cannot process service: Validation failed for status code in .user.Chat: expected valid gRPC status code (0-16), got 17 (hint: see https://grpc.io/docs/guides/status-codes/ for valid codes)''"
    by code_simp
  have c2: "processService ?nwa ?srv =
      Inl (Failed ''Cannot process service: Validation failed for status code in .user.Chat: expected valid gRPC status code (0-16), got 17 (hint: see https://grpc.io/docs/guides/status-codes/ for valid codes)'')"
    by (simp only: i5 t1)
  have t2: "''Cannot process method '' @ meth_FullyQualifiedName ?meth @ '': '' @ ValidationError_Error \<lparr>
              Entity = ''status code in '' @ meth_FullyQualifiedName ?meth,
              Expected = ''valid gRPC status code (0-16)'',
              Got = fmt_nat (unat (17::32 word)),
              Hint = ''see https://grpc.io/docs/guides/status-codes/ for valid codes''\<rparr>
     = ''Cannot process method .user.Chat.GetUser: Validation failed for status code in .user.Chat.GetUser: expected valid gRPC status code (0-16), got 17 (hint: see https://grpc.io/docs/guides/status-codes/ for valid codes)''"
    by code_simp
  have c3: "processService_method ?nwa ''Chat'' False False 7 defaultErrMsg ?meth =
      Inl (Failed ''Cannot process method .user.Chat.GetUser: Validation failed for status code in .user.Chat.GetUser: expected valid gRPC status code (0-16), got 17 (hint: see https://grpc.io/docs/guides/status-codes/ for valid codes)'')"
    by (simp only: i7 t2)
  have ms: "srv_Methods ?srv2 = [example_method ''GetUser'' None (Some 3) None,
              example_method ''ListUsers'' None None None]"
    "srv_ext_InternalServiceCode ?srv2 = Some 5"
    "meth_ext_InternalMethodCode (example_method ''GetUser'' None (Some 3) None) = Some 3"
    "meth_ext_InternalMethodCode (example_method ''ListUsers'' None None None) = None"
    by (simp_all add: example_service_def example_method_def)
  have cs: "Code_String 3 = ''InvalidArgument''" "Code_String 5 = ''NotFound''"
    by (simp_all add: Code_String_def)
  from i8 obtain md1 md2 where mds: "Methods sd = [md1, md2]"
    and s1: "\<not> meth_data_Skip md1 \<longrightarrow> StatusCode md1 = Code_String
              (case meth_ext_InternalMethodCode (example_method ''GetUser'' None (Some 3) None) of
                 Some c \<Rightarrow> c
               | None \<Rightarrow> (case srv_ext_InternalServiceCode ?srv2 of
                            Some c \<Rightarrow> c | None \<Rightarrow> PermissionDenied))"
    and s2: "\<not> meth_data_Skip md2 \<longrightarrow> StatusCode md2 = Code_String
              (case meth_ext_InternalMethodCode (example_method ''ListUsers'' None None None) of
                 Some c \<Rightarrow> c
               | None \<Rightarrow> (case srv_ext_InternalServiceCode ?srv2 of
                            Some c \<Rightarrow> c | None \<Rightarrow> PermissionDenied))"
    unfolding ms(1) by (auto simp add: list_all2_Cons1)
  from skips mds have ns: "\<not> meth_data_Skip md1" "\<not> meth_data_Skip md2" by simp_all
  from s1 ns(1) have r1: "StatusCode md1 = ''InvalidArgument''"
    by (simp only: ms option.case cs simp_thms)
  from s2 ns(2) have r2: "StatusCode md2 = ''NotFound''"
    by (simp only: ms option.case cs simp_thms)
  from mds r1 r2 have c4: "map StatusCode (Methods sd) = [''InvalidArgument'', ''NotFound'']"
    by simp
  from ok c4 have c5: "\<exists>sd. processService ?nwa ?srv2 = Inr sd
        \<and> map StatusCode (Methods sd) = [''InvalidArgument'', ''NotFound'']"
    by (intro exI conjI)
  show ?thesis by (rule conjI [OF c1 conjI [OF c2 conjI [OF c3 c5]]])
qed

text \<open>
  C10. In a resolved service every method has its decision, in order; the decision is
  marked skipped exactly when the method or the service carries the skip option, and a
  skipped decision keeps its internal flag false and its status code and error message
  empty.
\<close>

theorem skipped_method_frame:
  assumes ok: "processService nwa srv = Inr sd"
  shows "list_all2 (\<lambda>meth md.
            meth_data_Name md = meth_ctx_Name meth
          \<and> meth_data_Skip md =
              (ext_bool (meth_ext_MethodSkip meth) \<or> ext_bool (srv_ext_ServiceSkip srv))
          \<and> (meth_data_Skip md \<longrightarrow> \<not> Internal md \<and> StatusCode md = [] \<and> ErrMessage md = []))
          (srv_Methods srv) (Methods sd)"
  using processService_Inr(3) [OF ok]
proof (rule list_all2_mono)
  fix meth md
  assume m: "processService_method nwa (srv_ctx_Name srv)
            (ext_bool (srv_ext_ServiceSkip srv)) (ext_bool (srv_ext_InternalService srv))
            (case srv_ext_InternalServiceCode srv of Some c \<Rightarrow> c | None \<Rightarrow> PermissionDenied)
            (case srv_ext_InternalServiceErrMessage srv of Some s \<Rightarrow> s | None \<Rightarrow> defaultErrMsg)
            meth = Inr md"
  from processService_method_Inr(1) [OF m] processService_method_Inr(2) [OF m]
       processService_method_Inr(3) [OF m]
  show "meth_data_Name md = meth_ctx_Name meth
          \<and> meth_data_Skip md =
              (ext_bool (meth_ext_MethodSkip meth) \<or> ext_bool (srv_ext_ServiceSkip srv))
          \<and> (meth_data_Skip md \<longrightarrow> \<not> Internal md \<and> StatusCode md = [] \<and> ErrMessage md = [])"
    by simp
qed

theorem skipped_method_frame_witness:
  "\<exists>sd. processService (nameWithAlias example_aliases)
          (example_service None None
             [example_method ''GetUser'' None None None,
              example_method ''GetUserInternal'' (Some True) (Some 3) (Some ''hidden'')]) = Inr sd
      \<and> map meth_data_Skip (Methods sd) = [False, True]
      \<and> map Internal (Methods sd) = [True, False]
      \<and> map StatusCode (Methods sd) = [''PermissionDenied'', []]
      \<and> ErrMessage (Methods sd ! 1) = []"
proof -
  let ?nwa = "nameWithAlias example_aliases"
  let ?m1 = "example_method ''GetUser'' None None None"
  let ?m2 = "example_method ''GetUserInternal'' (Some True) (Some 3) (Some ''hidden'')"
  let ?srv = "example_service None None [?m1, ?m2]"
  have run: "case processService ?nwa ?srv of
               Inl f \<Rightarrow> False
             | Inr sd \<Rightarrow> map Internal (Methods sd) = [True, False]
                        \<and> map StatusCode (Methods sd) = [''PermissionDenied'', []]"
    by code_simp
  then obtain sd where ok: "processService ?nwa ?srv = Inr sd"
    and rest: "map Internal (Methods sd) = [True, False]"
              "map StatusCode (Methods sd) = [''PermissionDenied'', []]"
    by (cases "processService ?nwa ?srv") simp_all
  have ms: "srv_Methods ?srv = [?m1, ?m2]" "ext_bool (srv_ext_ServiceSkip ?srv) = False"
    "ext_bool (meth_ext_MethodSkip ?m1) = False" "ext_bool (meth_ext_MethodSkip ?m2) = True"
    by (simp_all add: example_service_def example_method_def ext_bool_def)
  from skipped_method_frame [OF ok] obtain md1 md2 where mds: "Methods sd = [md1, md2]"
    and s1: "meth_data_Skip md1 = False"
    and s2: "meth_data_Skip md2 = True"
    and f2: "meth_data_Skip md2 \<longrightarrow> \<not> Internal md2 \<and> StatusCode md2 = [] \<and> ErrMessage md2 = []"
    unfolding ms(1) by (auto simp add: list_all2_Cons1 ms)
  from mds s1 s2 f2 have "map meth_data_Skip (Methods sd) = [False, True]"
    "ErrMessage (Methods sd ! 1) = []" by simp_all
  with ok rest show ?thesis by (intro exI conjI)
qed

end
